theory Spec2Isabelle
  imports Main "HOL-Library.Word" "HOL-Library.Multiset"
begin

unbundle bit_operations_syntax

chapter \<open>The Ceph POSIX adapter of XrdCeph\<close>

text \<open>
  A model of \<^verbatim>\<open>src/XrdCeph/XrdCephPosix.cc\<close>: the parser of paths and layout
  parameters, the pool of striping sessions, the descriptor table, the synchronous I/O
  entry points, stat and the directory cursor. Each C++ function is a HOL function of the
  same name. The global variables are a record that every function takes and returns. A
  function that can throw, or run into behaviour C++ does not define, returns a sum whose
  left side is the way it ended. Logging through \<^verbatim>\<open>logwrapper\<close> has no effect on
  any value and is left out, as are the branches that test the result of \<^verbatim>\<open>new\<close>
  for null, which \<^verbatim>\<open>new\<close> never returns.
\<close>

section \<open>Platform constants\<close>

text \<open>
  The adapter in \<^verbatim>\<open>XrdCephPosix.cc\<close> is compiled against the Linux headers
  \<^verbatim>\<open>errno.h\<close> and \<^verbatim>\<open>fcntl.h\<close>; the values below are the ones of Linux on
  x86-64 (LP64: \<^verbatim>\<open>unsigned int\<close> has 32 bits, \<^verbatim>\<open>unsigned long\<close> and
  \<^verbatim>\<open>unsigned long long\<close> have 64).
\<close>

definition ENOENT :: int where "ENOENT = 2"
definition EBADF :: int where "EBADF = 9"
definition EEXIST :: int where "EEXIST = 17"
definition EINVAL :: int where "EINVAL = 22"

definition O_WRONLY :: "32 word" where "O_WRONLY = 1"
definition O_RDWR :: "32 word" where "O_RDWR = 2"
definition O_CREAT :: "32 word" where "O_CREAT = 64"
definition O_EXCL :: "32 word" where "O_EXCL = 128"
definition O_TRUNC :: "32 word" where "O_TRUNC = 512"

definition UINT_MAX :: nat where "UINT_MAX = 4294967295"
definition ULONG_MAX :: nat where "ULONG_MAX = 18446744073709551615"

section \<open>File identities\<close>

record CephFile =
  name :: string
  pool :: string
  userId :: string
  nbStripes :: "32 word"
  stripeUnit :: "64 word"
  objectSize :: "64 word"

record CephFileRef = CephFile +
  flags :: "32 word"
  mode :: "32 word"
  offset :: "64 word"

text \<open>
  \<^verbatim>\<open>g_defaultParams\<close> as the source initialises it: pool \<^verbatim>\<open>default\<close>, user
  \<^verbatim>\<open>admin\<close>, one stripe, 4 MB stripe unit and object size.
\<close>

definition initial_defaultParams :: CephFile where
  "initial_defaultParams =
     \<lparr>name = '''', pool = ''default'', userId = ''admin'', nbStripes = 1,
      stripeUnit = 4 * 1024 * 1024, objectSize = 4 * 1024 * 1024\<rparr>"

section \<open>Integer parsing\<close>

text \<open>
  The ways a call of the adapter ends without returning: the two exceptions of
  \<^verbatim>\<open><stdexcept>\<close> that \<^verbatim>\<open>stoull\<close>, \<^verbatim>\<open>stoui\<close> and
  \<^verbatim>\<open>std::string::compare\<close> throw, each with its message (nothing in
  \<^verbatim>\<open>XrdCephPosix.cc\<close> catches them), and the use or the second \<^verbatim>\<open>delete\<close> of
  an object that was deleted, or a write outside a buffer, which C++ leaves undefined.
\<close>

datatype abort = invalid_argument string | out_of_range string | undefined_behaviour

definition isspace :: "char \<Rightarrow> bool" where
  "isspace c = (c = CHR '' '' \<or> c = CHR 0x09 \<or> c = CHR 0x0A \<or> c = CHR 0x0B
                \<or> c = CHR 0x0C \<or> c = CHR 0x0D)"

definition isdigit :: "char \<Rightarrow> bool" where
  "isdigit c = (48 \<le> (of_char c :: nat) \<and> (of_char c :: nat) \<le> 57)"

definition digit_val :: "char \<Rightarrow> nat" where
  "digit_val c = of_char c - 48"

definition c_str :: "string \<Rightarrow> string" where
  "c_str s = takeWhile (\<lambda>c. c \<noteq> CHR 0x00) s"

definition decimal_value :: "string \<Rightarrow> nat" where
  "decimal_value ds = foldl (\<lambda>a c. 10 * a + digit_val c) 0 ds"

text \<open>
  \<^verbatim>\<open>strtoul(s, &end, 10)\<close> and \<^verbatim>\<open>strtoull(s, &end, 10)\<close> of the C library,
  with the largest value of the result type as a parameter: white space is skipped, one
  sign is accepted, then the longest run of decimal digits is consumed. The result is the
  value, the text from \<^verbatim>\<open>end\<close> on, and whether \<^verbatim>\<open>errno\<close> was set to
  \<^verbatim>\<open>ERANGE\<close>. With no digit at all nothing is consumed (\<^verbatim>\<open>end\<close> is the start of
  the string) and the value is 0; a value beyond the maximum gives the maximum and
  \<^verbatim>\<open>ERANGE\<close>; a minus sign negates the value in the unsigned type.
\<close>

definition strtou :: "nat \<Rightarrow> string \<Rightarrow> nat \<times> string \<times> bool" where
  "strtou maxv s =
     (let cs = c_str s;
          s1 = dropWhile isspace cs;
          neg = (case s1 of [] \<Rightarrow> False | c # r \<Rightarrow> c = CHR ''-'');
          s2 = (case s1 of [] \<Rightarrow> []
                | c # r \<Rightarrow> if c = CHR ''-'' \<or> c = CHR ''+'' then r else s1);
          ds = takeWhile isdigit s2;
          rest = dropWhile isdigit s2;
          v = decimal_value ds
      in if ds = [] then (0, cs, False)
         else if maxv < v then (maxv, rest, True)
         else if neg then ((maxv + 1 - v) mod (maxv + 1), rest, False)
         else (v, rest, False))"

definition stoull :: "string \<Rightarrow> abort + 64 word" where
  "stoull s =
     (case strtou ULONG_MAX s of (res, end_of_parse, erange) \<Rightarrow>
        if end_of_parse \<noteq> [] then Inl (invalid_argument s)
        else if erange then Inl (out_of_range s)
        else Inr (of_nat res))"

definition stoui :: "string \<Rightarrow> abort + 32 word" where
  "stoui s =
     (case strtou ULONG_MAX s of (res, end_of_parse, erange) \<Rightarrow>
        if end_of_parse \<noteq> [] then Inl (invalid_argument s)
        else if erange \<or> UINT_MAX < res then Inl (out_of_range s)
        else Inr (of_nat res))"

section \<open>The path and parameter parser\<close>

text \<open>
  \<^verbatim>\<open>std::string::find(c, pos)\<close>: the index of the first \<^verbatim>\<open>c\<close> at or after
  \<^verbatim>\<open>pos\<close>, or \<^verbatim>\<open>npos\<close> (here \<open>None\<close>). \<^verbatim>\<open>substr(pos, n)\<close> and
  \<^verbatim>\<open>substr(pos)\<close> are called by the parser only with \<^verbatim>\<open>pos\<close> at most the size of
  the string (a position returned by \<^verbatim>\<open>find\<close>, such a position plus one, or the
  size), where they do not throw.
\<close>

fun find_first :: "char \<Rightarrow> string \<Rightarrow> nat option" where
  "find_first c [] = None"
| "find_first c (x # xs) = (if x = c then Some 0 else map_option Suc (find_first c xs))"

definition find_char :: "string \<Rightarrow> char \<Rightarrow> nat \<Rightarrow> nat option" where
  "find_char s c pos = map_option (\<lambda>i. pos + i) (find_first c (drop pos s))"

definition substr :: "string \<Rightarrow> nat \<Rightarrow> nat \<Rightarrow> string" where
  "substr s pos n = take n (drop pos s)"

definition substr_from :: "string \<Rightarrow> nat \<Rightarrow> string" where
  "substr_from s pos = drop pos s"

text \<open>
  \<^verbatim>\<open>XrdOucEnv *env\<close> is a null pointer (\<open>None\<close>) or a table of strings whose
  \<^verbatim>\<open>Get\<close> returns a null pointer for a missing key.
\<close>

type_synonym XrdOucEnv = "string \<rightharpoonup> string"

definition env_Get :: "XrdOucEnv option \<Rightarrow> string \<Rightarrow> string option" where
  "env_Get env k = (case env of None \<Rightarrow> None | Some e \<Rightarrow> e k)"

text \<open>
  Each \<^verbatim>\<open>fillCeph...\<close> function takes the process-wide defaults
  (\<^verbatim>\<open>g_defaultParams\<close>), updates one field of the file and returns the position after
  the field. The numeric ones return \<open>Inl\<close> where \<^verbatim>\<open>stoui\<close> or \<^verbatim>\<open>stoull\<close>
  throws.
\<close>

definition fillCephUserId ::
  "CephFile \<Rightarrow> string \<Rightarrow> XrdOucEnv option \<Rightarrow> 'a CephFile_scheme \<Rightarrow> nat \<times> 'a CephFile_scheme" where
  "fillCephUserId dflt params env file =
     (let file = file\<lparr>userId := userId dflt\<rparr> in
      case find_char params (CHR ''@'') 0 of
        Some atPos \<Rightarrow> (atPos + 1, file\<lparr>userId := substr params 0 atPos\<rparr>)
      | None \<Rightarrow>
          (case env_Get env ''cephUserId'' of
             Some cuser \<Rightarrow> (0, file\<lparr>userId := cuser\<rparr>)
           | None \<Rightarrow> (0, file)))"

definition fillCephPool ::
  "CephFile \<Rightarrow> string \<Rightarrow> nat \<Rightarrow> XrdOucEnv option \<Rightarrow> 'a CephFile_scheme \<Rightarrow> nat \<times> 'a CephFile_scheme" where
  "fillCephPool dflt params off env file =
     (let file = file\<lparr>pool := pool dflt\<rparr> in
      case find_char params (CHR '','') off of
        None \<Rightarrow>
          if length params = off then
            (case env_Get env ''cephPool'' of
               Some cpool \<Rightarrow> (length params, file\<lparr>pool := cpool\<rparr>)
             | None \<Rightarrow> (length params, file))
          else (length params, file\<lparr>pool := substr_from params off\<rparr>)
      | Some comPos \<Rightarrow> (comPos + 1, file\<lparr>pool := substr params off (comPos - off)\<rparr>))"

definition fillCephNbStripes ::
  "CephFile \<Rightarrow> string \<Rightarrow> nat \<Rightarrow> XrdOucEnv option \<Rightarrow> 'a CephFile_scheme
     \<Rightarrow> abort + nat \<times> 'a CephFile_scheme" where
  "fillCephNbStripes dflt params off env file =
     (let file = file\<lparr>nbStripes := nbStripes dflt\<rparr> in
      case find_char params (CHR '','') off of
        None \<Rightarrow>
          if length params = off then
            (case env_Get env ''cephNbStripes'' of
               Some cNbStripes \<Rightarrow>
                 (case stoui cNbStripes of
                    Inl e \<Rightarrow> Inl e
                  | Inr v \<Rightarrow> Inr (length params, file\<lparr>nbStripes := v\<rparr>))
             | None \<Rightarrow> Inr (length params, file))
          else
            (case stoui (substr_from params off) of
               Inl e \<Rightarrow> Inl e
             | Inr v \<Rightarrow> Inr (length params, file\<lparr>nbStripes := v\<rparr>))
      | Some comPos \<Rightarrow>
          (case stoui (substr params off (comPos - off)) of
             Inl e \<Rightarrow> Inl e
           | Inr v \<Rightarrow> Inr (comPos + 1, file\<lparr>nbStripes := v\<rparr>)))"

definition fillCephStripeUnit ::
  "CephFile \<Rightarrow> string \<Rightarrow> nat \<Rightarrow> XrdOucEnv option \<Rightarrow> 'a CephFile_scheme
     \<Rightarrow> abort + nat \<times> 'a CephFile_scheme" where
  "fillCephStripeUnit dflt params off env file =
     (let file = file\<lparr>stripeUnit := stripeUnit dflt\<rparr> in
      case find_char params (CHR '','') off of
        None \<Rightarrow>
          if length params = off then
            (case env_Get env ''cephStripeUnit'' of
               Some cStripeUnit \<Rightarrow>
                 (case stoull cStripeUnit of
                    Inl e \<Rightarrow> Inl e
                  | Inr v \<Rightarrow> Inr (length params, file\<lparr>stripeUnit := v\<rparr>))
             | None \<Rightarrow> Inr (length params, file))
          else
            (case stoull (substr_from params off) of
               Inl e \<Rightarrow> Inl e
             | Inr v \<Rightarrow> Inr (length params, file\<lparr>stripeUnit := v\<rparr>))
      | Some comPos \<Rightarrow>
          (case stoull (substr params off (comPos - off)) of
             Inl e \<Rightarrow> Inl e
           | Inr v \<Rightarrow> Inr (comPos + 1, file\<lparr>stripeUnit := v\<rparr>)))"

definition fillCephObjectSize ::
  "CephFile \<Rightarrow> string \<Rightarrow> nat \<Rightarrow> XrdOucEnv option \<Rightarrow> 'a CephFile_scheme
     \<Rightarrow> abort + 'a CephFile_scheme" where
  "fillCephObjectSize dflt params off env file =
     (let file = file\<lparr>objectSize := objectSize dflt\<rparr> in
      if length params = off then
        (case env_Get env ''cephObjectSize'' of
           Some cObjectSize \<Rightarrow>
             (case stoull cObjectSize of
                Inl e \<Rightarrow> Inl e
              | Inr v \<Rightarrow> Inr (file\<lparr>objectSize := v\<rparr>))
         | None \<Rightarrow> Inr file)
      else
        (case stoull (substr_from params off) of
           Inl e \<Rightarrow> Inl e
         | Inr v \<Rightarrow> Inr (file\<lparr>objectSize := v\<rparr>)))"

definition fillCephFileParams ::
  "CephFile \<Rightarrow> string \<Rightarrow> XrdOucEnv option \<Rightarrow> 'a CephFile_scheme \<Rightarrow> abort + 'a CephFile_scheme" where
  "fillCephFileParams dflt params env file =
     (case fillCephUserId dflt params env file of
        (afterUser, file) \<Rightarrow>
          (case fillCephPool dflt params afterUser env file of
             (afterPool, file) \<Rightarrow>
               (case fillCephNbStripes dflt params afterPool env file of
                  Inl e \<Rightarrow> Inl e
                | Inr (afterNbStripes, file) \<Rightarrow>
                    (case fillCephStripeUnit dflt params afterNbStripes env file of
                       Inl e \<Rightarrow> Inl e
                     | Inr (afterStripeUnit, file) \<Rightarrow>
                         fillCephObjectSize dflt params afterStripeUnit env file))))"

definition fillCephFile ::
  "CephFile \<Rightarrow> string \<Rightarrow> XrdOucEnv option \<Rightarrow> 'a CephFile_scheme \<Rightarrow> abort + 'a CephFile_scheme" where
  "fillCephFile dflt path env file =
     (case find_char path (CHR '':'') 0 of
        None \<Rightarrow> fillCephFileParams dflt [] env (file\<lparr>name := path\<rparr>)
      | Some colonPos \<Rightarrow>
          fillCephFileParams dflt (substr path 0 colonPos) env
            (file\<lparr>name := substr_from path (colonPos + 1)\<rparr>))"

text \<open>
  \<^verbatim>\<open>getCephFile\<close> and \<^verbatim>\<open>getCephFileRef\<close> declare the struct without
  initialising it; \<^verbatim>\<open>fillCephFile\<close> then assigns every field of \<^verbatim>\<open>CephFile\<close>, so
  the starting value chosen here is never observed. \<^verbatim>\<open>getCephFileRef\<close> ignores its
  \<^verbatim>\<open>offset\<close> argument and stores 0.
\<close>

definition blank_CephFile :: CephFile where
  "blank_CephFile =
     \<lparr>name = [], pool = [], userId = [], nbStripes = 0, stripeUnit = 0, objectSize = 0\<rparr>"

definition getCephFile :: "CephFile \<Rightarrow> string \<Rightarrow> XrdOucEnv option \<Rightarrow> abort + CephFile" where
  "getCephFile dflt path env = fillCephFile dflt path env blank_CephFile"

definition getCephFileRef ::
  "CephFile \<Rightarrow> string \<Rightarrow> XrdOucEnv option \<Rightarrow> 32 word \<Rightarrow> 32 word \<Rightarrow> 64 word
     \<Rightarrow> abort + CephFileRef" where
  "getCephFileRef dflt path env fl md off =
     (case fillCephFile dflt path env
             (CephFile.extend blank_CephFile
                (CephFileRef.fields (0 :: 32 word) (0 :: 32 word) (0 :: 64 word))) of
        Inl e \<Rightarrow> Inl e
      | Inr fr \<Rightarrow> Inr (fr\<lparr>flags := fl, mode := md, offset := 0\<rparr>))"

section \<open>The object store and the free store\<close>

type_synonym ptr = int
type_synonym bytes = "8 word list"

text \<open>
  librados and libradosstriper are not part of the adapter: what their calls return is a
  parameter of the model. The first eight fields are the return codes of the calls made
  while a session is set up. The last four are the calls on a striping session (named by
  its pointer) that the entry points below use; they act on the state \<open>'s\<close> of the
  object store. \<open>striper_stat\<close> gives the return code and what the call leaves in its two
  out-parameters (size and time), \<open>striper_read\<close> the return code and the buffer list.
\<close>

record 's rados =
  rados_init :: "string \<Rightarrow> int"
  conf_read_file :: int
  rados_connect :: int
  ioctx_create :: "string \<Rightarrow> int"
  striper_create :: int
  set_object_layout_stripe_count :: "32 word \<Rightarrow> int"
  set_object_layout_stripe_unit :: "64 word \<Rightarrow> int"
  set_object_layout_object_size :: "64 word \<Rightarrow> int"
  striper_stat :: "'s \<Rightarrow> ptr \<Rightarrow> string \<Rightarrow> int \<times> 64 word \<times> int"
  striper_write :: "'s \<Rightarrow> ptr \<Rightarrow> string \<Rightarrow> bytes \<Rightarrow> nat \<Rightarrow> 64 word \<Rightarrow> int \<times> 's"
  striper_read :: "'s \<Rightarrow> ptr \<Rightarrow> string \<Rightarrow> nat \<Rightarrow> 64 word \<Rightarrow> int \<times> bytes"
  striper_trunc :: "'s \<Rightarrow> ptr \<Rightarrow> string \<Rightarrow> 64 word \<Rightarrow> int \<times> 's"

text \<open>
  The global variables of \<^verbatim>\<open>XrdCephPosix.cc\<close>. The two \<^verbatim>\<open>std::map\<close>s of
  pointers are association lists (\<open>map_of\<close> is \<^verbatim>\<open>find\<close>), the descriptor table is a
  map from \<^verbatim>\<open>unsigned int\<close>, \<^verbatim>\<open>g_cluster\<close> is \<open>None\<close> when it is the null
  pointer. Three fields are not variables of the source: \<open>live\<close> is the set of objects
  created by \<^verbatim>\<open>new\<close> and not yet deleted, \<open>next_ptr\<close> the address the next
  \<^verbatim>\<open>new\<close> returns, \<open>store\<close> the state of the object store.
\<close>

record 's globals =
  g_radosStripers :: "(string \<times> ptr) list"
  g_ioCtx :: "(string \<times> ptr) list"
  g_cluster :: "ptr option"
  g_fds :: "32 word \<rightharpoonup> CephFileRef"
  g_filesOpenForWrite :: "string multiset"
  g_nextCephFd :: "32 word"
  g_defaultParams :: CephFile
  live :: "ptr set"
  next_ptr :: ptr
  store :: 's

definition initial_globals :: "'s \<Rightarrow> 's globals" where
  "initial_globals s =
     \<lparr>g_radosStripers = [], g_ioCtx = [], g_cluster = None, g_fds = Map.empty,
      g_filesOpenForWrite = {#}, g_nextCephFd = 0, g_defaultParams = initial_defaultParams,
      live = {}, next_ptr = 1, store = s\<rparr>"

definition new_obj :: "'s globals \<Rightarrow> ptr \<times> 's globals" where
  "new_obj g = (next_ptr g, g\<lparr>live := insert (next_ptr g) (live g), next_ptr := next_ptr g + 1\<rparr>)"

definition delete_obj :: "ptr \<Rightarrow> 's globals \<Rightarrow> 's globals" where
  "delete_obj p g = g\<lparr>live := live g - {p}\<rparr>"

text \<open>\<^verbatim>\<open>std::map::insert\<close> leaves an entry that is already there.\<close>

definition map_insert :: "string \<Rightarrow> ptr \<Rightarrow> (string \<times> ptr) list \<Rightarrow> (string \<times> ptr) list" where
  "map_insert k v m = (case map_of m k of None \<Rightarrow> m @ [(k, v)] | Some _ \<Rightarrow> m)"

section \<open>The resource pool\<close>

text \<open>Decimal output of \<^verbatim>\<open>operator<<\<close> on an unsigned integer.\<close>

definition digit_char :: "nat \<Rightarrow> char" where
  "digit_char d =
     (if d = 0 then CHR ''0'' else if d = 1 then CHR ''1'' else if d = 2 then CHR ''2''
      else if d = 3 then CHR ''3'' else if d = 4 then CHR ''4'' else if d = 5 then CHR ''5''
      else if d = 6 then CHR ''6'' else if d = 7 then CHR ''7'' else if d = 8 then CHR ''8''
      else CHR ''9'')"

fun decimal :: "nat \<Rightarrow> string" where
  "decimal n =
     (if n < 10 then [digit_char n] else decimal (n div 10) @ [digit_char (n mod 10)])"

declare decimal.simps [simp del]

definition userAtPool :: "'a CephFile_scheme \<Rightarrow> string" where
  "userAtPool file =
     userId file @ ''@'' @ pool file @ '','' @ decimal (unat (nbStripes file)) @ '',''
       @ decimal (unat (stripeUnit file)) @ '','' @ decimal (unat (objectSize file))"

text \<open>
  The block \<^verbatim>\<open>if (0 == g_cluster) { ... }\<close> of \<^verbatim>\<open>getRadosStriper\<close>: the result is
  the cluster to go on with, or \<open>None\<close> where the source returns 0. A \<^verbatim>\<open>g_cluster\<close>
  that is not null is used as it is; if the object it points to was deleted, that use is
  undefined.
\<close>

definition connect_cluster ::
  "'s rados \<Rightarrow> 'a CephFile_scheme \<Rightarrow> 's globals \<Rightarrow> abort + (ptr option \<times> 's globals)" where
  "connect_cluster lib file g =
     (case g_cluster g of
        Some c \<Rightarrow> if c \<in> live g then Inr (Some c, g) else Inl undefined_behaviour
      | None \<Rightarrow>
          (case new_obj g of
             (c, g) \<Rightarrow>
               (let g = g\<lparr>g_cluster := Some c\<rparr> in
                if rados_init lib (userId file) \<noteq> 0
                then Inr (None, (delete_obj c g)\<lparr>g_cluster := None\<rparr>)
                else if conf_read_file lib \<noteq> 0
                then Inr (None, (delete_obj c g)\<lparr>g_cluster := None\<rparr>)
                else if rados_connect lib \<noteq> 0
                then Inr (None, (delete_obj c g)\<lparr>g_cluster := None\<rparr>)
                else Inr (Some c, g))))"

text \<open>
  The clean-up the source repeats after \<^verbatim>\<open>striper_create\<close> and after each of the
  three layout calls: \<^verbatim>\<open>delete striper; delete ioctx; g_cluster->shutdown();
  delete g_cluster; g_cluster = 0; return 0;\<close>
\<close>

definition rollback_session :: "ptr \<Rightarrow> ptr \<Rightarrow> ptr \<Rightarrow> 's globals \<Rightarrow> 's globals" where
  "rollback_session striper ioctx cluster g =
     (delete_obj cluster (delete_obj ioctx (delete_obj striper g)))\<lparr>g_cluster := None\<rparr>"

definition getRadosStriper ::
  "'s rados \<Rightarrow> 'a CephFile_scheme \<Rightarrow> 's globals \<Rightarrow> abort + (ptr option \<times> 's globals)" where
  "getRadosStriper lib file g =
     (case map_of (g_radosStripers g) (userAtPool file) of
        Some striper \<Rightarrow> Inr (Some striper, g)
      | None \<Rightarrow>
          (case connect_cluster lib file g of
             Inl e \<Rightarrow> Inl e
           | Inr (None, g) \<Rightarrow> Inr (None, g)
           | Inr (Some cluster, g) \<Rightarrow>
               (case new_obj g of
                  (ioctx, g) \<Rightarrow>
                    if ioctx_create lib (pool file) \<noteq> 0
                    then Inr (None, delete_obj ioctx ((delete_obj cluster g)\<lparr>g_cluster := None\<rparr>))
                    else
                      (case new_obj g of
                         (striper, g) \<Rightarrow>
                           if striper_create lib \<noteq> 0
                           then Inr (None, rollback_session striper ioctx cluster g)
                           else if set_object_layout_stripe_count lib (nbStripes file) \<noteq> 0
                           then Inr (None, rollback_session striper ioctx cluster g)
                           else if set_object_layout_stripe_unit lib (stripeUnit file) \<noteq> 0
                           then Inr (None, rollback_session striper ioctx cluster g)
                           else if set_object_layout_object_size lib (objectSize file) \<noteq> 0
                           then Inr (None, rollback_session striper ioctx cluster g)
                           else
                             Inr (Some striper,
                                  g\<lparr>g_ioCtx := map_insert (userAtPool file) ioctx (g_ioCtx g),
                                    g_radosStripers :=
                                      map_insert (userAtPool file) striper (g_radosStripers g)\<rparr>)))))"

text \<open>
  \<^verbatim>\<open>ceph_posix_disconnect_all\<close> deletes every striper and every pool binding, clears
  the two maps and deletes the cluster. It does not reset \<^verbatim>\<open>g_cluster\<close>. Deleting the
  null pointer does nothing; deleting an object that is no longer live is undefined.
\<close>

fun delete_all :: "ptr list \<Rightarrow> 's globals \<Rightarrow> abort + 's globals" where
  "delete_all [] g = Inr g"
| "delete_all (p # ps) g =
     (if p \<in> live g then delete_all ps (delete_obj p g) else Inl undefined_behaviour)"

definition ceph_posix_disconnect_all :: "'s globals \<Rightarrow> abort + 's globals" where
  "ceph_posix_disconnect_all g =
     (case delete_all (map snd (g_radosStripers g)) g of
        Inl e \<Rightarrow> Inl e
      | Inr g \<Rightarrow>
          (let g = g\<lparr>g_radosStripers := []\<rparr> in
           case delete_all (map snd (g_ioCtx g)) g of
             Inl e \<Rightarrow> Inl e
           | Inr g \<Rightarrow>
               (let g = g\<lparr>g_ioCtx := []\<rparr> in
                case g_cluster g of
                  None \<Rightarrow> Inr g
                | Some c \<Rightarrow>
                    if c \<in> live g then Inr (delete_obj c g) else Inl undefined_behaviour)))"

section \<open>Descriptors: open and close\<close>

definition ceph_posix_internal_truncate ::
  "'s rados \<Rightarrow> 'a CephFile_scheme \<Rightarrow> 64 word \<Rightarrow> 's globals \<Rightarrow> abort + (int \<times> 's globals)" where
  "ceph_posix_internal_truncate lib file sz g =
     (case getRadosStriper lib file g of
        Inl e \<Rightarrow> Inl e
      | Inr (None, g) \<Rightarrow> Inr (- EINVAL, g)
      | Inr (Some striper, g) \<Rightarrow>
          (case striper_trunc lib (store g) striper (name file) sz of
             (rc, s) \<Rightarrow> Inr (rc, g\<lparr>store := s\<rparr>)))"

text \<open>
  The two blocks of \<^verbatim>\<open>ceph_posix_open\<close> that follow the registration of the
  descriptor. Each gives \<open>Some rc\<close> where the source returns \<open>rc\<close> at once and \<open>None\<close>
  where it goes on.
\<close>

definition open_excl_check ::
  "'s rados \<Rightarrow> CephFileRef \<Rightarrow> 's globals \<Rightarrow> abort + (int option \<times> 's globals)" where
  "open_excl_check lib fr g =
     (case getRadosStriper lib fr g of
        Inl e \<Rightarrow> Inl e
      | Inr (None, g) \<Rightarrow> Inr (Some (- EINVAL), g)
      | Inr (Some striper, g) \<Rightarrow>
          (case striper_stat lib (store g) striper (name fr) of
             (rc, sz, tm) \<Rightarrow>
               if rc \<noteq> - ENOENT then (if rc = 0 then Inr (Some (- EEXIST), g) else Inr (Some rc, g))
               else Inr (None, g)))"

definition open_trunc ::
  "'s rados \<Rightarrow> CephFileRef \<Rightarrow> 's globals \<Rightarrow> abort + (int option \<times> 's globals)" where
  "open_trunc lib fr g =
     (case ceph_posix_internal_truncate lib fr 0 g of
        Inl e \<Rightarrow> Inl e
      | Inr (rc, g) \<Rightarrow> if rc < 0 \<and> rc \<noteq> - ENOENT then Inr (Some rc, g) else Inr (None, g))"

text \<open>
  \<^verbatim>\<open>ceph_posix_open\<close>. The descriptor is stored in \<^verbatim>\<open>g_fds\<close>, the counter is
  advanced and the name is recorded in \<^verbatim>\<open>g_filesOpenForWrite\<close> before the existence
  check and the truncation. The value returned on success is the counter minus one, read
  as an \<^verbatim>\<open>int\<close>.
\<close>

definition ceph_posix_open ::
  "'s rados \<Rightarrow> XrdOucEnv option \<Rightarrow> string \<Rightarrow> 32 word \<Rightarrow> 32 word \<Rightarrow> 's globals
     \<Rightarrow> abort + (int \<times> 's globals)" where
  "ceph_posix_open lib env pathname fl md g =
     (case getCephFileRef (g_defaultParams g) pathname env fl md 0 of
        Inl e \<Rightarrow> Inl e
      | Inr fr \<Rightarrow>
          (let g = g\<lparr>g_fds := (g_fds g)(g_nextCephFd g \<mapsto> fr)\<rparr>;
               g = g\<lparr>g_nextCephFd := g_nextCephFd g + 1\<rparr>;
               g = (if fl AND (O_WRONLY OR O_RDWR) \<noteq> 0
                    then g\<lparr>g_filesOpenForWrite := add_mset (name fr) (g_filesOpenForWrite g)\<rparr>
                    else g)
           in
           case (if (fl AND O_CREAT) \<noteq> 0 \<and> (fl AND O_EXCL) \<noteq> 0
                 then open_excl_check lib fr g else Inr (None, g)) of
             Inl e \<Rightarrow> Inl e
           | Inr (Some rc, g) \<Rightarrow> Inr (rc, g)
           | Inr (None, g) \<Rightarrow>
               (case (if (fl AND O_TRUNC) \<noteq> 0 then open_trunc lib fr g else Inr (None, g)) of
                  Inl e \<Rightarrow> Inl e
                | Inr (Some rc, g) \<Rightarrow> Inr (rc, g)
                | Inr (None, g) \<Rightarrow> Inr (sint (g_nextCephFd g - 1), g))))"

text \<open>
  \<^verbatim>\<open>ceph_posix_close\<close>. Erasing \<^verbatim>\<open>g_filesOpenForWrite.find(name)\<close> removes one
  occurrence of the name; when the name is not in the multiset the source erases the end
  iterator, which is undefined.
\<close>

definition ceph_posix_close :: "32 word \<Rightarrow> 's globals \<Rightarrow> abort + (int \<times> 's globals)" where
  "ceph_posix_close fd g =
     (case g_fds g fd of
        None \<Rightarrow> Inr (- EBADF, g)
      | Some fr \<Rightarrow>
          if flags fr AND (O_WRONLY OR O_RDWR) \<noteq> 0
          then
            (if name fr \<in># g_filesOpenForWrite g
             then Inr (0, g\<lparr>g_filesOpenForWrite := g_filesOpenForWrite g - {#name fr#},
                            g_fds := (g_fds g)(fd := None)\<rparr>)
             else Inl undefined_behaviour)
          else Inr (0, g\<lparr>g_fds := (g_fds g)(fd := None)\<rparr>))"

section \<open>The I/O engine\<close>

text \<open>
  The descriptor argument \<^verbatim>\<open>int fd\<close> is converted to \<^verbatim>\<open>unsigned int\<close> by
  \<^verbatim>\<open>g_fds.find(fd)\<close>; the model takes the converted value. A write passes the whole
  buffer, so \<^verbatim>\<open>count\<close> is the length of \<open>buf\<close>. A read returns the first \<open>rc\<close>
  bytes of the buffer list the store filled.
\<close>

definition ceph_posix_write ::
  "'s rados \<Rightarrow> 32 word \<Rightarrow> bytes \<Rightarrow> 's globals \<Rightarrow> abort + (int \<times> 's globals)" where
  "ceph_posix_write lib fd buf g =
     (case g_fds g fd of
        None \<Rightarrow> Inr (- EBADF, g)
      | Some fr \<Rightarrow>
          if flags fr AND (O_WRONLY OR O_RDWR) = 0 then Inr (- EBADF, g)
          else
            (case getRadosStriper lib fr g of
               Inl e \<Rightarrow> Inl e
             | Inr (None, g) \<Rightarrow> Inr (- EINVAL, g)
             | Inr (Some striper, g) \<Rightarrow>
                 (case striper_write lib (store g) striper (name fr) buf (length buf) (offset fr) of
                    (rc, s) \<Rightarrow>
                      if rc \<noteq> 0 then Inr (rc, g\<lparr>store := s\<rparr>)
                      else Inr (int (length buf),
                                g\<lparr>store := s,
                                  g_fds := (g_fds g)(fd \<mapsto>
                                    fr\<lparr>offset := offset fr + of_nat (length buf)\<rparr>)\<rparr>))))"

definition ceph_posix_pwrite ::
  "'s rados \<Rightarrow> 32 word \<Rightarrow> bytes \<Rightarrow> 64 word \<Rightarrow> 's globals \<Rightarrow> abort + (int \<times> 's globals)" where
  "ceph_posix_pwrite lib fd buf off g =
     (case g_fds g fd of
        None \<Rightarrow> Inr (- EBADF, g)
      | Some fr \<Rightarrow>
          if flags fr AND (O_WRONLY OR O_RDWR) = 0 then Inr (- EBADF, g)
          else
            (case getRadosStriper lib fr g of
               Inl e \<Rightarrow> Inl e
             | Inr (None, g) \<Rightarrow> Inr (- EINVAL, g)
             | Inr (Some striper, g) \<Rightarrow>
                 (case striper_write lib (store g) striper (name fr) buf (length buf) off of
                    (rc, s) \<Rightarrow>
                      if rc \<noteq> 0 then Inr (rc, g\<lparr>store := s\<rparr>)
                      else Inr (int (length buf), g\<lparr>store := s\<rparr>))))"

definition ceph_posix_read ::
  "'s rados \<Rightarrow> 32 word \<Rightarrow> nat \<Rightarrow> 's globals \<Rightarrow> abort + (int \<times> bytes \<times> 's globals)" where
  "ceph_posix_read lib fd cnt g =
     (case g_fds g fd of
        None \<Rightarrow> Inr (- EBADF, [], g)
      | Some fr \<Rightarrow>
          if flags fr AND (O_WRONLY OR O_RDWR) \<noteq> 0 then Inr (- EBADF, [], g)
          else
            (case getRadosStriper lib fr g of
               Inl e \<Rightarrow> Inl e
             | Inr (None, g) \<Rightarrow> Inr (- EINVAL, [], g)
             | Inr (Some striper, g) \<Rightarrow>
                 (case striper_read lib (store g) striper (name fr) cnt (offset fr) of
                    (rc, bl) \<Rightarrow>
                      if rc < 0 then Inr (rc, [], g)
                      else Inr (rc, take (nat rc) bl,
                                g\<lparr>g_fds := (g_fds g)(fd \<mapsto>
                                    fr\<lparr>offset := offset fr + of_int rc\<rparr>)\<rparr>))))"

definition ceph_posix_pread ::
  "'s rados \<Rightarrow> 32 word \<Rightarrow> nat \<Rightarrow> 64 word \<Rightarrow> 's globals \<Rightarrow> abort + (int \<times> bytes \<times> 's globals)" where
  "ceph_posix_pread lib fd cnt off g =
     (case g_fds g fd of
        None \<Rightarrow> Inr (- EBADF, [], g)
      | Some fr \<Rightarrow>
          if flags fr AND (O_WRONLY OR O_RDWR) \<noteq> 0 then Inr (- EBADF, [], g)
          else
            (case getRadosStriper lib fr g of
               Inl e \<Rightarrow> Inl e
             | Inr (None, g) \<Rightarrow> Inr (- EINVAL, [], g)
             | Inr (Some striper, g) \<Rightarrow>
                 (case striper_read lib (store g) striper (name fr) cnt off of
                    (rc, bl) \<Rightarrow>
                      if rc < 0 then Inr (rc, [], g)
                      else Inr (rc, take (nat rc) bl, g))))"

text \<open>
  The fields of \<^verbatim>\<open>struct stat\<close> the adapter assigns; \<^verbatim>\<open>memset\<close> zeroes the
  buffer first. \<^verbatim>\<open>time(NULL)\<close> is the parameter \<open>now\<close> of \<^verbatim>\<open>ceph_posix_stat\<close>.
  \<open>set_times_and_mode\<close> is the common tail of both functions: the time is copied to the
  other two time fields and the mode is set to octal 0666, which is 438.
\<close>

record stat_buf =
  st_size :: "64 word"
  st_atime :: int
  st_mtime :: int
  st_ctime :: int
  st_mode :: "32 word"

definition zero_stat :: stat_buf where
  "zero_stat = \<lparr>st_size = 0, st_atime = 0, st_mtime = 0, st_ctime = 0, st_mode = 0\<rparr>"

definition set_times_and_mode :: "stat_buf \<Rightarrow> stat_buf" where
  "set_times_and_mode buf =
     buf\<lparr>st_mtime := st_atime buf, st_ctime := st_atime buf, st_mode := 438\<rparr>"

definition ceph_posix_fstat ::
  "'s rados \<Rightarrow> 32 word \<Rightarrow> stat_buf \<Rightarrow> 's globals \<Rightarrow> abort + (int \<times> stat_buf \<times> 's globals)" where
  "ceph_posix_fstat lib fd buf g =
     (case g_fds g fd of
        None \<Rightarrow> Inr (- EBADF, buf, g)
      | Some fr \<Rightarrow>
          (case getRadosStriper lib fr g of
             Inl e \<Rightarrow> Inl e
           | Inr (None, g) \<Rightarrow> Inr (- EINVAL, buf, g)
           | Inr (Some striper, g) \<Rightarrow>
               (case striper_stat lib (store g) striper (name fr) of
                  (rc, sz, tm) \<Rightarrow>
                    (let buf = zero_stat\<lparr>st_size := sz, st_atime := tm\<rparr> in
                     if rc \<noteq> 0 then Inr (- rc, buf, g)
                     else Inr (0, set_times_and_mode buf, g)))))"

definition ceph_posix_stat ::
  "'s rados \<Rightarrow> int \<Rightarrow> XrdOucEnv option \<Rightarrow> string \<Rightarrow> stat_buf \<Rightarrow> 's globals
     \<Rightarrow> abort + (int \<times> stat_buf \<times> 's globals)" where
  "ceph_posix_stat lib now env pathname buf g =
     (case getCephFile (g_defaultParams g) pathname env of
        Inl e \<Rightarrow> Inl e
      | Inr file \<Rightarrow>
          (case getRadosStriper lib file g of
             Inl e \<Rightarrow> Inl e
           | Inr (None, g) \<Rightarrow> Inr (- EINVAL, buf, g)
           | Inr (Some striper, g) \<Rightarrow>
               (case striper_stat lib (store g) striper (name file) of
                  (rc, sz, tm) \<Rightarrow>
                    (let buf = zero_stat\<lparr>st_size := sz, st_atime := tm\<rparr> in
                     if rc \<noteq> 0 then
                       (if - ENOENT = rc \<and> name file \<in># g_filesOpenForWrite g
                        then Inr (0, set_times_and_mode (buf\<lparr>st_size := 0, st_atime := now\<rparr>), g)
                        else Inr (- rc, buf, g))
                     else Inr (0, set_times_and_mode buf, g)))))"

section \<open>Directory enumeration\<close>

text \<open>
  A \<^verbatim>\<open>DirIterator\<close> holds the object iterator, here the keys of the listing that are
  still ahead (the first one is the current key, the empty list is
  \<^verbatim>\<open>objects_end()\<close>), and the pool binding. What \<^verbatim>\<open>iterator->first\<close> gives on
  the end iterator is librados's business: it is the parameter \<open>end_first\<close>.
\<close>

record DirIterator =
  m_iterator :: "string list"
  m_ioctx :: ptr

definition first_stripe_suffix :: string where
  "first_stripe_suffix = ''.0000000000000000''"

text \<open>
  \<^verbatim>\<open>key.compare(key.size()-17, 17, ".0000000000000000")\<close>, as a truth value (not 0
  means different). For a key shorter than 17 characters the position wraps around in
  \<^verbatim>\<open>size_t\<close> (64 bits), is beyond the size, and \<^verbatim>\<open>compare\<close> throws
  \<^verbatim>\<open>std::out_of_range\<close>. The message is the one of libstdc++, which names the
  function, the position and the size.
\<close>

definition compare_suffix :: "string \<Rightarrow> abort + bool" where
  "compare_suffix k =
     (if length k < 17
      then Inl (out_of_range
                  (''basic_string::compare: __pos (which is ''
                     @ decimal (2 ^ 64 + length k - 17)
                     @ '') > this->size() (which is '' @ decimal (length k) @ '')''))
      else Inr (drop (length k - 17) k \<noteq> first_stripe_suffix))"

text \<open>
  The loop \<^verbatim>\<open>while (compare(...) && iterator != end) iterator++\<close>: the comparison is
  evaluated first, also on the end iterator.
\<close>

fun skip_stripes :: "string \<Rightarrow> string list \<Rightarrow> abort + string list" where
  "skip_stripes end_first [] =
     (case compare_suffix end_first of Inl e \<Rightarrow> Inl e | Inr _ \<Rightarrow> Inr [])"
| "skip_stripes end_first (k # ks) =
     (case compare_suffix k of
        Inl e \<Rightarrow> Inl e
      | Inr different \<Rightarrow> if different then skip_stripes end_first ks else Inr (k # ks))"

text \<open>
  \<^verbatim>\<open>ceph_posix_readdir\<close> returns 0 and leaves a C string in \<^verbatim>\<open>buff\<close>. With
  \<^verbatim>\<open>l = size - 17\<close> and \<^verbatim>\<open>blen\<close> lowered to \<^verbatim>\<open>l\<close> when \<^verbatim>\<open>l < blen\<close>,
  \<^verbatim>\<open>strncpy\<close> copies \<^verbatim>\<open>blen-1\<close> characters of the key and
  \<^verbatim>\<open>buff[blen-1]\<close> is set to 0. When \<^verbatim>\<open>blen\<close> is not positive at that point the
  count given to \<^verbatim>\<open>strncpy\<close> wraps around and the write at \<^verbatim>\<open>buff[blen-1]\<close> is
  outside the buffer.
\<close>

definition ceph_posix_readdir ::
  "string \<Rightarrow> DirIterator \<Rightarrow> int \<Rightarrow> abort + (int \<times> string \<times> DirIterator)" where
  "ceph_posix_readdir end_first dirp blen =
     (case skip_stripes end_first (m_iterator dirp) of
        Inl e \<Rightarrow> Inl e
      | Inr [] \<Rightarrow> Inr (0, [], dirp\<lparr>m_iterator := []\<rparr>)
      | Inr (k # ks) \<Rightarrow>
          (let l = int (length k) - 17;
               blen = (if l < blen then l else blen)
           in if blen \<le> 0 then Inl undefined_behaviour
              else Inr (0, c_str (take (nat (blen - 1)) k), dirp\<lparr>m_iterator := ks\<rparr>)))"

section \<open>An example object store\<close>

text \<open>
  A small store to run the adapter on: one flat name space of byte strings. Every
  connection call succeeds. The layout calls reject what the adapter's log messages name:
  a stripe count of 0, a stripe unit that is 0 or no multiple of 64 KB, an object size of
  0. A write at an offset beyond the end pads with zero bytes, a read returns the bytes
  that exist from the offset on, and \<open>stat\<close>, \<open>read\<close> and \<open>trunc\<close> of a missing name
  give \<^verbatim>\<open>-ENOENT\<close>.
\<close>

type_synonym mem_store = "(string \<times> bytes) list"

definition mem_write :: "bytes \<Rightarrow> bytes \<Rightarrow> nat \<Rightarrow> bytes" where
  "mem_write old b off =
     take off (old @ replicate (off - length old) 0) @ b @ drop (off + length b) old"

definition mem_rados :: "mem_store rados" where
  "mem_rados =
     \<lparr>rados_init = (\<lambda>user. 0),
      conf_read_file = 0,
      rados_connect = 0,
      ioctx_create = (\<lambda>pool. 0),
      striper_create = 0,
      set_object_layout_stripe_count = (\<lambda>n. if n = 0 then - EINVAL else 0),
      set_object_layout_stripe_unit = (\<lambda>u. if u = 0 \<or> u mod 65536 \<noteq> 0 then - EINVAL else 0),
      set_object_layout_object_size = (\<lambda>sz. if sz = 0 then - EINVAL else 0),
      striper_stat = (\<lambda>s p n. case map_of s n of
                                  None \<Rightarrow> (- ENOENT, 0, 0)
                                | Some b \<Rightarrow> (0, of_nat (length b), 1000)),
      striper_write = (\<lambda>s p n b len off.
                         (0, (n, mem_write (case map_of s n of None \<Rightarrow> [] | Some old \<Rightarrow> old)
                                   (take len b) (unat off)) # s)),
      striper_read = (\<lambda>s p n cnt off. case map_of s n of
                                        None \<Rightarrow> (- ENOENT, [])
                                      | Some b \<Rightarrow> (int (length (take cnt (drop (unat off) b))),
                                                   take cnt (drop (unat off) b))),
      striper_trunc = (\<lambda>s p n sz. case map_of s n of
                                     None \<Rightarrow> (- ENOENT, s)
                                   | Some b \<Rightarrow> (0, (n, take (unat sz) (b @ replicate (unat sz - length b) 0)) # s))\<rparr>"

text \<open>
  Three states of the adapter over the example store. \<open>one_session s\<close> is the state after
  the first session, for the default identity, was created on store \<open>s\<close>: the cluster is
  object 1, the pool binding object 2, the striping session object 3. \<open>example_fr\<close> is a
  descriptor entry for the name \<^verbatim>\<open>f\<close> under the default identity, with the given open
  flags and cursor. \<open>one_open s fr\<close> is \<open>one_session s\<close> with \<open>fr\<close> as descriptor 0 and
  its name recorded as open for writing.
\<close>

definition default_key :: string where
  "default_key = ''admin@default,1,4194304,4194304''"

definition one_session :: "mem_store \<Rightarrow> mem_store globals" where
  "one_session s =
     (initial_globals s)
       \<lparr>g_radosStripers := [(default_key, 3)], g_ioCtx := [(default_key, 2)],
        g_cluster := Some 1, live := {3, 2, 1}, next_ptr := 4\<rparr>"

definition example_fr :: "32 word \<Rightarrow> 64 word \<Rightarrow> CephFileRef" where
  "example_fr fl cur =
     \<lparr>name = ''f'', pool = ''default'', userId = ''admin'', nbStripes = 1,
      stripeUnit = 4194304, objectSize = 4194304, flags = fl, mode = 420, offset = cur\<rparr>"

definition one_open :: "mem_store \<Rightarrow> CephFileRef \<Rightarrow> mem_store globals" where
  "one_open s fr =
     (one_session s)\<lparr>g_fds := [0 \<mapsto> fr], g_filesOpenForWrite := {#name fr#}, g_nextCephFd := 1\<rparr>"

section \<open>Facts used throughout\<close>

lemmas const_defs =
  ENOENT_def EBADF_def EEXIST_def EINVAL_def
  O_WRONLY_def O_RDWR_def O_CREAT_def O_EXCL_def O_TRUNC_def

lemmas parse_defs =
  getCephFile_def getCephFileRef_def fillCephFile_def fillCephFileParams_def
  fillCephUserId_def fillCephPool_def fillCephNbStripes_def fillCephStripeUnit_def
  fillCephObjectSize_def env_Get_def find_char_def substr_def substr_from_def
  initial_defaultParams_def blank_CephFile_def CephFile.extend_def CephFileRef.fields_def
  stoui_def stoull_def strtou_def c_str_def isspace_def isdigit_def decimal_value_def
  digit_val_def ULONG_MAX_def UINT_MAX_def

lemmas pool_defs =
  getRadosStriper_def connect_cluster_def new_obj_def delete_obj_def rollback_session_def
  map_insert_def userAtPool_def initial_globals_def decimal.simps digit_char_def
  insert_Diff_if

lemmas example_defs =
  mem_rados_def mem_write_def default_key_def one_session_def example_fr_def one_open_def

text \<open>
  The parser on a path with every field embedded, on a bare name, and on a path whose
  fields come from the environment.
\<close>

lemma parse_examples:
  "getCephFile initial_defaultParams ''alice@poolA,3,65536,262144:data/run1'' None
     = Inr \<lparr>name = ''data/run1'', pool = ''poolA'', userId = ''alice'', nbStripes = 3,
            stripeUnit = 65536, objectSize = 262144\<rparr>
   \<and> getCephFile initial_defaultParams ''data/run1'' None
     = Inr \<lparr>name = ''data/run1'', pool = ''default'', userId = ''admin'', nbStripes = 1,
            stripeUnit = 4194304, objectSize = 4194304\<rparr>
   \<and> getCephFile initial_defaultParams ''data/run1''
        (Some [''cephUserId'' \<mapsto> ''bob'', ''cephPool'' \<mapsto> ''poolB'',
               ''cephNbStripes'' \<mapsto> ''2'', ''cephStripeUnit'' \<mapsto> ''131072'',
               ''cephObjectSize'' \<mapsto> ''524288''])
     = Inr \<lparr>name = ''data/run1'', pool = ''poolB'', userId = ''bob'', nbStripes = 2,
            stripeUnit = 131072, objectSize = 524288\<rparr>"
  by (simp add: parse_defs)

text \<open>
  Creating the first session from the initial state of the process gives \<open>one_session\<close>.
\<close>

lemma first_session:
  "getRadosStriper mem_rados initial_defaultParams (initial_globals s) = Inr (Some 3, one_session s)"
  by (simp add: pool_defs example_defs const_defs initial_defaultParams_def)

text \<open>
  Session set-up touches the pool, the cluster and the free store only: descriptors, the
  names open for writing, the defaults and the object store stay as they are.
\<close>

lemma connect_cluster_frame:
  assumes "connect_cluster lib file g = Inr (r, g')"
  shows "g_fds g' = g_fds g \<and> store g' = store g
       \<and> g_filesOpenForWrite g' = g_filesOpenForWrite g
       \<and> g_nextCephFd g' = g_nextCephFd g \<and> g_defaultParams g' = g_defaultParams g
       \<and> g_radosStripers g' = g_radosStripers g \<and> g_ioCtx g' = g_ioCtx g"
  using assms
  by (auto simp: connect_cluster_def new_obj_def delete_obj_def Let_def
           split: option.splits if_splits)

lemma getRadosStriper_frame:
  assumes "getRadosStriper lib file g = Inr (r, g')"
  shows "g_fds g' = g_fds g \<and> store g' = store g
       \<and> g_filesOpenForWrite g' = g_filesOpenForWrite g
       \<and> g_nextCephFd g' = g_nextCephFd g \<and> g_defaultParams g' = g_defaultParams g"
proof (cases "map_of (g_radosStripers g) (userAtPool file)")
  case (Some s)
  with assms show ?thesis by (simp add: getRadosStriper_def)
next
  case None
  show ?thesis
  proof (cases "connect_cluster lib file g")
    case (Inl e)
    with None assms show ?thesis by (simp add: getRadosStriper_def)
  next
    case (Inr p)
    obtain c gc where p: "p = (c, gc)" by (cases p)
    from Inr p have "connect_cluster lib file g = Inr (c, gc)" by simp
    from connect_cluster_frame[OF this]
    have fr: "g_fds gc = g_fds g \<and> store gc = store g
            \<and> g_filesOpenForWrite gc = g_filesOpenForWrite g
            \<and> g_nextCephFd gc = g_nextCephFd g \<and> g_defaultParams gc = g_defaultParams g"
      by simp
    from assms None Inr p fr show ?thesis
      by (auto simp: getRadosStriper_def new_obj_def delete_obj_def rollback_session_def
               split: option.splits if_splits)
  qed
qed

text \<open>Closing a handle that is not in the table reports \<^verbatim>\<open>-EBADF\<close>.\<close>

lemma close_unknown_handle:
  "g_fds g fd = None \<Longrightarrow> ceph_posix_close fd g = Inr (- EBADF, g)"
  by (simp add: ceph_posix_close_def)

section \<open>Session creation that fails in a layout call\<close>

text \<open>
  Whatever the pool holds, a miss whose three connection steps succeed and whose layout
  is refused ends with the null result, both maps as they were and \<^verbatim>\<open>g_cluster\<close>
  reset to null with its object deleted.
\<close>

lemma getRadosStriper_layout_failure:
  assumes miss: "map_of (g_radosStripers g) (userAtPool file) = None"
      and cl: "g_cluster g = Some c" "c \<in> live g"
      and ok: "ioctx_create lib (pool file) = 0" "striper_create lib = 0"
      and bad: "set_object_layout_stripe_count lib (nbStripes file) \<noteq> 0
              \<or> set_object_layout_stripe_unit lib (stripeUnit file) \<noteq> 0
              \<or> set_object_layout_object_size lib (objectSize file) \<noteq> 0"
  shows "\<exists>g'. getRadosStriper lib file g = Inr (None, g') \<and> g_cluster g' = None
            \<and> c \<notin> live g' \<and> g_radosStripers g' = g_radosStripers g
            \<and> g_ioCtx g' = g_ioCtx g"
  using assms
  by (auto simp: getRadosStriper_def connect_cluster_def new_obj_def delete_obj_def
                 rollback_session_def)

text \<open>
  Claim C1 says that a session-creation attempt failing in one of the three layout calls
  rolls back the pool binding and the striping session of the attempt, tears the
  process-wide cluster handle down only if the attempt would have created the first
  session, and leaves it intact when other sessions are pooled. The code tears it down
  always. In \<open>one_session\<close> the session of the default identity is pooled (striper 3 on
  cluster 1). An attempt for pool \<^verbatim>\<open>other\<close> with stripe unit 1, which the store
  refuses, deletes the two objects of the attempt (4 and 5) and also the cluster, and
  sets \<^verbatim>\<open>g_cluster\<close> to null, while the pooled session stays in both maps.
\<close>

theorem layout_failure_destroys_shared_cluster:
  "getRadosStriper mem_rados (initial_defaultParams\<lparr>pool := ''other'', stripeUnit := 1\<rparr>)
     (one_session [])
     = Inr (None, (one_session [])\<lparr>g_cluster := None, live := {3, 2}, next_ptr := 6\<rparr>)
   \<and> map_of (g_radosStripers (one_session [])) default_key = Some 3"
  by (simp add: pool_defs example_defs const_defs initial_defaultParams_def)

section \<open>Exclusive creation of a name that exists\<close>

text \<open>
  Neither the existence check nor the truncation touches the descriptor table, the
  counter or the names open for writing. So every call of \<^verbatim>\<open>ceph_posix_open\<close> that
  returns, with whatever value, has stored the new descriptor under the old value of the
  counter, advanced the counter and, for a write mode, recorded the name.
\<close>

lemma open_excl_check_frame:
  assumes "open_excl_check lib fr g = Inr (r, g')"
  shows "g_fds g' = g_fds g \<and> g_nextCephFd g' = g_nextCephFd g
       \<and> g_filesOpenForWrite g' = g_filesOpenForWrite g"
  using assms
  by (auto simp: open_excl_check_def split: sum.splits option.splits prod.splits if_splits
           dest: getRadosStriper_frame)

lemma open_trunc_frame:
  assumes "open_trunc lib fr g = Inr (r, g')"
  shows "g_fds g' = g_fds g \<and> g_nextCephFd g' = g_nextCephFd g
       \<and> g_filesOpenForWrite g' = g_filesOpenForWrite g"
  using assms
  by (auto simp: open_trunc_def ceph_posix_internal_truncate_def
           split: sum.splits option.splits prod.splits if_splits
           dest: getRadosStriper_frame)

lemma open_registers_descriptor:
  assumes "ceph_posix_open lib env pathname fl md g = Inr (rc, g')"
  shows "\<exists>fr. getCephFileRef (g_defaultParams g) pathname env fl md 0 = Inr fr
            \<and> g_fds g' (g_nextCephFd g) = Some fr \<and> g_nextCephFd g' = g_nextCephFd g + 1
            \<and> g_filesOpenForWrite g' =
                (if fl AND (O_WRONLY OR O_RDWR) \<noteq> 0
                 then add_mset (name fr) (g_filesOpenForWrite g) else g_filesOpenForWrite g)"
  using assms
  by (auto simp: ceph_posix_open_def Let_def
           split: sum.splits option.splits prod.splits if_splits
           dest!: open_excl_check_frame open_trunc_frame)

text \<open>
  Claim C2 says that an open with the must-not-exist and create flags on a name that
  exists reports AlreadyExists and leaves the descriptor table and the set of names open
  for writing unchanged. The code registers the descriptor before it probes the store:
  on the store that holds \<^verbatim>\<open>f\<close>, opening \<^verbatim>\<open>f\<close> with
  \<^verbatim>\<open>O_WRONLY|O_CREAT|O_EXCL\<close> from the initial state returns \<^verbatim>\<open>-EEXIST\<close> and
  leaves descriptor 0 in the table, the counter at 1 and \<^verbatim>\<open>f\<close> among the names open
  for writing.
\<close>

theorem failed_exclusive_open_keeps_descriptor:
  "ceph_posix_open mem_rados None ''f'' (O_WRONLY OR O_CREAT OR O_EXCL) 420
     (initial_globals [(''f'', [1, 2, 3])])
     = Inr (- EEXIST, one_open [(''f'', [1, 2, 3])] (example_fr 193 0))
   \<and> g_fds (one_open [(''f'', [1, 2, 3])] (example_fr 193 0)) 0 = Some (example_fr 193 0)
   \<and> g_fds (initial_globals [(''f'', [1 :: 8 word, 2, 3])]) 0 = None
   \<and> g_filesOpenForWrite (one_open [(''f'', [1, 2, 3])] (example_fr 193 0)) = {#''f''#}"
  by (simp add: ceph_posix_open_def open_excl_check_def parse_defs pool_defs example_defs
                const_defs)

section \<open>Access modes of read and write\<close>

text \<open>
  What the mode checks do on any known handle: the read entry points refuse every handle
  whose flags have \<^verbatim>\<open>O_WRONLY\<close> or \<^verbatim>\<open>O_RDWR\<close>, the write entry points refuse
  every handle whose flags have neither.
\<close>

lemma read_refuses_write_flags:
  assumes "g_fds g fd = Some fr" and "flags fr AND (O_WRONLY OR O_RDWR) \<noteq> 0"
  shows "ceph_posix_read lib fd n g = Inr (- EBADF, [], g)
       \<and> ceph_posix_pread lib fd n off g = Inr (- EBADF, [], g)"
  using assms by (simp add: ceph_posix_read_def ceph_posix_pread_def)

lemma write_refuses_read_only:
  assumes "g_fds g fd = Some fr" and "flags fr AND (O_WRONLY OR O_RDWR) = 0"
  shows "ceph_posix_write lib fd b g = Inr (- EBADF, g)
       \<and> ceph_posix_pwrite lib fd b off g = Inr (- EBADF, g)"
  using assms by (simp add: ceph_posix_write_def ceph_posix_pwrite_def)

text \<open>
  Claim C3 says that read and pread are rejected with BadDescriptor exactly when the
  handle is write-only, write and pwrite exactly when it is read-only, so that a handle
  opened read-write is accepted by both. In the code a handle opened with
  \<^verbatim>\<open>O_RDWR\<close> is refused by read and by pread: opening \<^verbatim>\<open>f\<close> read-write gives
  descriptor 0, on which both return \<^verbatim>\<open>-EBADF\<close>, while write on it is accepted and
  returns the byte count.
\<close>

theorem read_write_handle_refused_by_read:
  "ceph_posix_open mem_rados None ''f'' O_RDWR 420 (one_session [(''f'', [1, 2, 3])])
     = Inr (0, one_open [(''f'', [1, 2, 3])] (example_fr 2 0))
   \<and> ceph_posix_read mem_rados 0 3 (one_open [(''f'', [1, 2, 3])] (example_fr 2 0))
     = Inr (- EBADF, [], one_open [(''f'', [1, 2, 3])] (example_fr 2 0))
   \<and> ceph_posix_pread mem_rados 0 3 0 (one_open [(''f'', [1, 2, 3])] (example_fr 2 0))
     = Inr (- EBADF, [], one_open [(''f'', [1, 2, 3])] (example_fr 2 0))
   \<and> ceph_posix_write mem_rados 0 [7] (one_open [(''f'', [1, 2, 3])] (example_fr 2 0))
     = Inr (1, one_open [(''f'', [7, 2, 3]), (''f'', [1, 2, 3])] (example_fr 2 1))"
  by (simp add: ceph_posix_open_def ceph_posix_read_def ceph_posix_pread_def
                ceph_posix_write_def parse_defs pool_defs example_defs const_defs)

section \<open>Write followed by read\<close>

text \<open>
  A read that the entry point accepts starts at the handle's cursor and moves the cursor
  on by the number of bytes the store returned.
\<close>

lemma read_starts_at_cursor:
  assumes "g_fds g fd = Some fr" and "flags fr AND (O_WRONLY OR O_RDWR) = 0"
      and "getRadosStriper lib fr g = Inr (Some sr, g')"
      and "striper_read lib (store g') sr (name fr) n (offset fr) = (rc, bl)" and "0 \<le> rc"
  shows "ceph_posix_read lib fd n g
           = Inr (rc, take (nat rc) bl,
                  g'\<lparr>g_fds := (g_fds g')(fd \<mapsto> fr\<lparr>offset := offset fr + of_int rc\<rparr>)\<rparr>)"
  using assms by (simp add: ceph_posix_read_def)

text \<open>
  Claim C4 says that a cursor-based write of N bytes at cursor 0 that succeeds, followed
  at once by a cursor-based read of N bytes on the same handle, returns the bytes written
  and leaves the cursor at 2N. On descriptor 0, opened read-write on \<^verbatim>\<open>f\<close> at cursor
  0, the write of three bytes succeeds, returns 3 and moves the cursor to 3; the read of
  three bytes that follows returns \<^verbatim>\<open>-EBADF\<close> and no byte, and the cursor stays at 3,
  not 6. A read that was accepted would start at the cursor, which is offset 3, where the
  store holds no byte of the three it was given at offset 0.
\<close>

theorem write_then_read_same_handle:
  "ceph_posix_write mem_rados 0 [7, 8, 9] (one_open [] (example_fr 2 0))
     = Inr (3, one_open [(''f'', [7, 8, 9])] (example_fr 2 3))
   \<and> ceph_posix_read mem_rados 0 3 (one_open [(''f'', [7, 8, 9])] (example_fr 2 3))
     = Inr (- EBADF, [], one_open [(''f'', [7, 8, 9])] (example_fr 2 3))
   \<and> map_option offset (g_fds (one_open [(''f'', [7 :: 8 word, 8, 9])] (example_fr 2 3)) 0)
     = Some 3
   \<and> striper_read mem_rados (store (one_open [(''f'', [7, 8, 9])] (example_fr 2 3))) 3 ''f'' 3 3
     = (0, [])"
  by (simp add: ceph_posix_write_def ceph_posix_read_def pool_defs example_defs const_defs)

text \<open>
  Claim C4 as amended: for every handle accepted for writing at cursor 0 and every byte
  string of length N, a cursor-based write that succeeds leaves that handle's cursor at N
  and has handed the N bytes to the store at offset 0; a cursor-based read of N bytes
  that follows through any handle on the same name that the read entry point accepts and
  that is at cursor 0 returns exactly the bytes written and leaves that handle's cursor at
  N, when the store gives back at offset 0 what the write handed to it. The store is
  taken to return 0 or a negative code from a write. The first two statements rest on the
  writing handle alone.
\<close>

theorem write_then_read_round_trip:
  assumes wfd: "g_fds g wfd = Some fw" and w0: "offset fw = 0"
      and wsess: "getRadosStriper lib fw g = Inr (Some sw, gw)"
      and contract: "fst (striper_write lib (store g) sw (name fw) buf (length buf) 0) \<le> 0"
      and wr: "ceph_posix_write lib wfd buf g = Inr (int (length buf), g1)"
  shows "map_option offset (g_fds g1 wfd) = Some (of_nat (length buf))
       \<and> store g1 = snd (striper_write lib (store g) sw (name fw) buf (length buf) 0)
       \<and> (\<forall>rfd fr sr g2.
             g_fds g1 rfd = Some fr \<and> offset fr = 0 \<and> name fr = name fw
             \<and> flags fr AND (O_WRONLY OR O_RDWR) = 0
             \<and> getRadosStriper lib fr g1 = Inr (Some sr, g2)
             \<and> striper_read lib (store g1) sr (name fw) (length buf) 0 = (int (length buf), buf)
             \<longrightarrow> ceph_posix_read lib rfd (length buf) g1
                   = Inr (int (length buf), buf,
                          g2\<lparr>g_fds := (g_fds g2)(rfd \<mapsto> fr\<lparr>offset := of_nat (length buf)\<rparr>)\<rparr>))"
proof -
  note fw = getRadosStriper_frame[OF wsess]
  obtain rc s where
    sw: "striper_write lib (store gw) sw (name fw) buf (length buf) (offset fw) = (rc, s)"
    by (cases "striper_write lib (store gw) sw (name fw) buf (length buf) (offset fw)")
  have wflags: "flags fw AND (O_WRONLY OR O_RDWR) \<noteq> 0"
    using wr wfd by (auto simp: ceph_posix_write_def EBADF_def split: if_splits)
  have rc0: "rc = 0"
    using wr wfd wsess sw wflags contract fw w0
    by (auto simp: ceph_posix_write_def split: if_splits)
  have g1: "g1 = gw\<lparr>store := s,
                    g_fds := (g_fds gw)(wfd \<mapsto> fw\<lparr>offset := offset fw + of_nat (length buf)\<rparr>)\<rparr>"
    using wr wfd wsess sw wflags rc0 by (simp add: ceph_posix_write_def)
  have s: "s = snd (striper_write lib (store g) sw (name fw) buf (length buf) 0)"
    using sw fw w0 by simp
  have cur: "map_option offset (g_fds g1 wfd) = Some (of_nat (length buf))"
    by (simp add: g1 w0)
  have st1: "store g1 = snd (striper_write lib (store g) sw (name fw) buf (length buf) 0)"
    by (simp add: g1 s)
  have rd: "ceph_posix_read lib rfd (length buf) g1
              = Inr (int (length buf), buf,
                     g2\<lparr>g_fds := (g_fds g2)(rfd \<mapsto> fr\<lparr>offset := of_nat (length buf)\<rparr>)\<rparr>)"
    if rfd: "g_fds g1 rfd = Some fr" and r0: "offset fr = 0" and nm: "name fr = name fw"
      and rmode: "flags fr AND (O_WRONLY OR O_RDWR) = 0"
      and rsess: "getRadosStriper lib fr g1 = Inr (Some sr, g2)"
      and law: "striper_read lib (store g1) sr (name fw) (length buf) 0 = (int (length buf), buf)"
    for rfd fr sr g2
  proof -
    from getRadosStriper_frame[OF rsess] have "store g2 = store g1" by simp
    with law nm r0
    have "striper_read lib (store g2) sr (name fr) (length buf) (offset fr)
            = (int (length buf), buf)" by simp
    from read_starts_at_cursor[OF rfd rmode rsess this] r0 show ?thesis by simp
  qed
  from cur st1 rd show ?thesis by blast
qed

text \<open>
  The amended claim on the example store. On the single descriptor of the state above,
  opened read-write, the write leaves the cursor at 3. With descriptor 0 open write-only
  and descriptor 1 read-only, both on \<^verbatim>\<open>f\<close> at cursor 0, the read through descriptor 1
  returns the three bytes written through descriptor 0.
\<close>

theorem write_then_read_round_trip_witness:
  "map_option offset (g_fds (one_open [(''f'', [7 :: 8 word, 8, 9])] (example_fr 2 3)) 0) = Some 3
   \<and> ceph_posix_write mem_rados 0 [7, 8, 9]
       ((one_open [] (example_fr 1 0))
          \<lparr>g_fds := [0 \<mapsto> example_fr 1 0, 1 \<mapsto> example_fr 0 0], g_nextCephFd := 2\<rparr>)
     = Inr (3, (one_open [(''f'', [7, 8, 9])] (example_fr 1 3))
                 \<lparr>g_fds := [0 \<mapsto> example_fr 1 3, 1 \<mapsto> example_fr 0 0], g_nextCephFd := 2\<rparr>)
   \<and> ceph_posix_read mem_rados 1 3
        ((one_open [(''f'', [7, 8, 9])] (example_fr 1 3))
           \<lparr>g_fds := [0 \<mapsto> example_fr 1 3, 1 \<mapsto> example_fr 0 0], g_nextCephFd := 2\<rparr>)
     = Inr (3, [7, 8, 9],
            (one_open [(''f'', [7, 8, 9])] (example_fr 1 3))
              \<lparr>g_fds := [0 \<mapsto> example_fr 1 3, 1 \<mapsto> example_fr 0 3], g_nextCephFd := 2\<rparr>)"
proof -
  let ?b = "[7 :: 8 word, 8, 9]"
  let ?h = "one_open [] (example_fr 2 0)"
  let ?h1 = "one_open [(''f'', ?b)] (example_fr 2 3)"
  let ?g = "(one_open [] (example_fr 1 0))
              \<lparr>g_fds := [0 \<mapsto> example_fr 1 0, 1 \<mapsto> example_fr 0 0], g_nextCephFd := 2\<rparr>"
  let ?g1 = "(one_open [(''f'', ?b)] (example_fr 1 3))
               \<lparr>g_fds := [0 \<mapsto> example_fr 1 3, 1 \<mapsto> example_fr 0 0], g_nextCephFd := 2\<rparr>"
  have hfd: "g_fds ?h 0 = Some (example_fr 2 0)" by (simp add: example_defs)
  have h0: "offset (example_fr 2 0) = 0" by (simp add: example_fr_def)
  have hsess: "getRadosStriper mem_rados (example_fr 2 0) ?h = Inr (Some 3, ?h)"
    by (simp add: pool_defs example_defs)
  have hcontract: "fst (striper_write mem_rados (store ?h) 3 (name (example_fr 2 0)) ?b
                          (length ?b) 0) \<le> 0"
    by (simp add: example_defs)
  have hwr: "ceph_posix_write mem_rados 0 ?b ?h = Inr (int (length ?b), ?h1)"
    by (simp add: ceph_posix_write_def pool_defs example_defs const_defs)
  note single = write_then_read_round_trip[OF hfd h0 hsess hcontract hwr, THEN conjunct1]
  have wfd: "g_fds ?g 0 = Some (example_fr 1 0)" by simp
  have w0: "offset (example_fr 1 0) = 0" by (simp add: example_fr_def)
  have wsess: "getRadosStriper mem_rados (example_fr 1 0) ?g = Inr (Some 3, ?g)"
    by (simp add: pool_defs example_defs)
  have contract: "fst (striper_write mem_rados (store ?g) 3 (name (example_fr 1 0)) ?b
                         (length ?b) 0) \<le> 0"
    by (simp add: example_defs)
  have wr: "ceph_posix_write mem_rados 0 ?b ?g = Inr (int (length ?b), ?g1)"
    by (simp add: ceph_posix_write_def pool_defs example_defs const_defs fun_eq_iff)
  have reader: "g_fds ?g1 1 = Some (example_fr 0 0) \<and> offset (example_fr 0 0) = 0
       \<and> name (example_fr 0 0) = name (example_fr 1 0)
       \<and> flags (example_fr 0 0) AND (O_WRONLY OR O_RDWR) = 0
       \<and> getRadosStriper mem_rados (example_fr 0 0) ?g1 = Inr (Some 3, ?g1)
       \<and> striper_read mem_rados (store ?g1) 3 (name (example_fr 1 0)) (length ?b) 0
           = (int (length ?b), ?b)"
    by (simp add: pool_defs example_defs const_defs initial_globals_def)
  note pair = write_then_read_round_trip[OF wfd w0 wsess contract wr,
                THEN conjunct2, THEN conjunct2, rule_format, OF reader]
  from single pair wr show ?thesis
    by (simp add: example_defs initial_globals_def fun_eq_iff numeral_3_eq_3)
qed

section \<open>The global disconnect\<close>

text \<open>
  On a process that never created a session the disconnect changes nothing, however
  often it is called.
\<close>

lemma disconnect_all_initial:
  "ceph_posix_disconnect_all (initial_globals s) = Inr (initial_globals s)"
  by (simp add: ceph_posix_disconnect_all_def initial_globals_def)

text \<open>
  In every state with a cluster, a disconnect that returns has emptied both maps and
  deleted the cluster object but left \<^verbatim>\<open>g_cluster\<close> pointing to it; the next
  disconnect deletes it a second time.
\<close>

lemma delete_all_result:
  assumes "delete_all ps g = Inr g'"
  shows "g' = g\<lparr>live := live g - set ps\<rparr>"
  using assms
proof (induction ps arbitrary: g)
  case Nil
  then show ?case by simp
next
  case (Cons p ps)
  from Cons.prems have p: "p \<in> live g" and rest: "delete_all ps (delete_obj p g) = Inr g'"
    by (auto split: if_splits)
  from Cons.IH[OF rest] show ?case
    by (simp add: delete_obj_def) (metis Diff_insert Diff_insert2)
qed

lemma disconnect_all_leaves_dangling_cluster:
  assumes cl: "g_cluster g = Some c" and first: "ceph_posix_disconnect_all g = Inr g'"
  shows "g_cluster g' = Some c \<and> c \<notin> live g' \<and> g_radosStripers g' = [] \<and> g_ioCtx g' = []
       \<and> ceph_posix_disconnect_all g' = Inl undefined_behaviour"
proof -
  obtain g1 where d1: "delete_all (map snd (g_radosStripers g)) g = Inr g1"
    using first by (auto simp: ceph_posix_disconnect_all_def split: sum.splits)
  note r1 = delete_all_result[OF d1]
  obtain g2 where d2: "delete_all (map snd (g_ioCtx (g1\<lparr>g_radosStripers := []\<rparr>)))
                         (g1\<lparr>g_radosStripers := []\<rparr>) = Inr g2"
    using first d1 by (auto simp: ceph_posix_disconnect_all_def Let_def split: sum.splits)
  note r2 = delete_all_result[OF d2]
  have cl2: "g_cluster (g2\<lparr>g_ioCtx := []\<rparr>) = Some c" using cl by (simp add: r2 r1)
  have g': "c \<in> live g2 \<and> g' = delete_obj c (g2\<lparr>g_ioCtx := []\<rparr>)"
    using first d1 d2 cl2
    by (auto simp: ceph_posix_disconnect_all_def Let_def split: if_splits)
  then have props: "g_cluster g' = Some c \<and> c \<notin> live g' \<and> g_radosStripers g' = [] \<and> g_ioCtx g' = []"
    using cl2 by (simp add: delete_obj_def r2)
  then have "ceph_posix_disconnect_all g' = Inl undefined_behaviour"
    by (simp add: ceph_posix_disconnect_all_def)
  with props show ?thesis by simp
qed

text \<open>
  Claim C5 says that the global disconnect destroys every pooled session and the cluster
  handle and that a second call, with the pool empty and the cluster handle destroyed, is
  safe and leaves the state unchanged. The first call on \<open>one_session\<close> deletes the
  striper, the pool binding and the cluster and clears both maps, but
  \<^verbatim>\<open>g_cluster\<close> keeps pointing to the deleted cluster (object 1 is no longer live).
  The second call deletes that object again, which is undefined.
\<close>

theorem second_disconnect_deletes_cluster_twice:
  "ceph_posix_disconnect_all (one_session [])
     = Inr ((one_session [])\<lparr>g_radosStripers := [], g_ioCtx := [], live := {}\<rparr>)
   \<and> g_cluster ((one_session [])\<lparr>g_radosStripers := [], g_ioCtx := [], live := {}\<rparr>) = Some 1
   \<and> ceph_posix_disconnect_all
         ((one_session [])\<lparr>g_radosStripers := [], g_ioCtx := [], live := {}\<rparr>)
     = Inl undefined_behaviour"
  by (simp add: ceph_posix_disconnect_all_def pool_defs example_defs)

section \<open>Directory enumeration of logical names\<close>

text \<open>A key shorter than the marker suffix ends the call with the exception.\<close>

lemma readdir_short_key:
  "ceph_posix_readdir e \<lparr>m_iterator = [''a''], m_ioctx = 2\<rparr> 256
     = Inl (out_of_range
              ''basic_string::compare: __pos (which is 18446744073709551600) > this->size() (which is 1)'')"
  by (simp add: ceph_posix_readdir_def compare_suffix_def decimal.simps digit_char_def)

text \<open>
  For every first-stripe key whose logical name is not empty and is shorter than the
  buffer, the name comes back without its last character.
\<close>

lemma readdir_first_stripe_key:
  assumes "n \<noteq> []" and "int (length n) < blen" and "CHR 0x00 \<notin> set n"
  shows "ceph_posix_readdir e \<lparr>m_iterator = (n @ first_stripe_suffix) # ks, m_ioctx = p\<rparr> blen
           = Inr (0, butlast n, \<lparr>m_iterator = ks, m_ioctx = p\<rparr>)"
proof -
  have len: "length first_stripe_suffix = 17" by (simp add: first_stripe_suffix_def)
  have cmp: "compare_suffix (n @ first_stripe_suffix) = Inr False"
    by (simp add: compare_suffix_def len)
  have nn: "CHR 0x00 \<notin> set (butlast n)" using assms(3) by (auto dest: in_set_butlastD)
  have "nat (int (length n) - 1) = length n - 1" by linarith
  then have tk: "take (nat (int (length n) - 1)) n = butlast n"
    by (simp add: butlast_conv_take)
  have cs: "c_str (butlast n) = butlast n"
    using nn by (auto simp: c_str_def takeWhile_eq_all_conv)
  have pos: "0 < int (length n)" using assms(1) by simp
  show ?thesis
    using assms(2) pos
    by (simp add: ceph_posix_readdir_def cmp len Let_def tk cs)
qed

text \<open>
  Claim C6 says that repeated calls of readdir over a listing with one first-stripe key
  per logical file yield each logical name once, the marker suffix stripped and the name
  otherwise unaltered, and then an empty result. The code copies one character less than
  the name has whenever the name is shorter than the buffer. On the listing of the files
  \<^verbatim>\<open>a\<close> and \<^verbatim>\<open>bc\<close>, two stripes each, with a buffer of 256 bytes, the first call
  returns the empty string, which is the end-of-enumeration signal, where \<^verbatim>\<open>a\<close> is
  due, and the second returns \<^verbatim>\<open>b\<close> where \<^verbatim>\<open>bc\<close> is due.
\<close>

theorem readdir_drops_last_character:
  "ceph_posix_readdir []
     \<lparr>m_iterator = [''a.0000000000000000'', ''a.0000000000000001'',
                     ''bc.0000000000000000'', ''bc.0000000000000001''], m_ioctx = 2\<rparr> 256
     = Inr (0, [], \<lparr>m_iterator = [''a.0000000000000001'', ''bc.0000000000000000'',
                                   ''bc.0000000000000001''], m_ioctx = 2\<rparr>)
   \<and> ceph_posix_readdir []
        \<lparr>m_iterator = [''a.0000000000000001'', ''bc.0000000000000000'',
                        ''bc.0000000000000001''], m_ioctx = 2\<rparr> 256
     = Inr (0, ''b'', \<lparr>m_iterator = [''bc.0000000000000001''], m_ioctx = 2\<rparr>)"
  by (simp add: ceph_posix_readdir_def compare_suffix_def first_stripe_suffix_def c_str_def)

section \<open>The sign of the value returned by stat\<close>

text \<open>
  On every known handle, and on every path that parses, a store code other than 0 is
  returned negated once the session is there (for the path-based stat: unless the
  write-intent case applies).
\<close>

lemma fstat_failure_sign:
  assumes "g_fds g fd = Some fr"
      and "getRadosStriper lib fr g = Inr (Some striper, g')"
      and "striper_stat lib (store g') striper (name fr) = (rc, sz, tm)"
      and "rc \<noteq> 0"
  shows "ceph_posix_fstat lib fd buf g = Inr (- rc, zero_stat\<lparr>st_size := sz, st_atime := tm\<rparr>, g')"
  using assms by (simp add: ceph_posix_fstat_def)

lemma stat_failure_sign:
  assumes "getCephFile (g_defaultParams g) pathname env = Inr file"
      and "getRadosStriper lib file g = Inr (Some striper, g')"
      and "striper_stat lib (store g') striper (name file) = (rc, sz, tm)"
      and "rc \<noteq> 0"
      and "rc \<noteq> - ENOENT \<or> name file \<notin># g_filesOpenForWrite g"
  shows "ceph_posix_stat lib now env pathname buf g
           = Inr (- rc, zero_stat\<lparr>st_size := sz, st_atime := tm\<rparr>, g')"
proof -
  from getRadosStriper_frame[OF assms(2)]
  have "g_filesOpenForWrite g' = g_filesOpenForWrite g" by simp
  with assms show ?thesis by (auto simp: ceph_posix_stat_def)
qed

text \<open>
  Claim C7 says that every entry point returns zero or a positive byte count on success
  and a negative value on failure, and in particular that fstat and the path-based stat
  return a negative value when the store's stat fails. Both return the store's code with
  the sign reversed. Descriptor 0 is open on \<^verbatim>\<open>f\<close>, which the empty store does not
  hold: the store's stat gives \<^verbatim>\<open>-ENOENT\<close> and fstat returns \<^verbatim>\<open>ENOENT\<close>, which
  is 2. The path-based stat of \<^verbatim>\<open>h\<close>, not in the store and not open for writing,
  returns 2 as well.
\<close>

theorem stat_failure_returns_positive:
  "ceph_posix_fstat mem_rados 0 zero_stat (one_open [] (example_fr 2 0))
     = Inr (2, zero_stat, one_open [] (example_fr 2 0))
   \<and> ceph_posix_stat mem_rados 777 None ''h'' zero_stat (one_session [])
     = Inr (2, zero_stat, one_session [])
   \<and> fst (striper_stat mem_rados [] 3 ''f'') = - 2"
  by (simp add: ceph_posix_fstat_def ceph_posix_stat_def parse_defs pool_defs example_defs
                const_defs zero_stat_def)

section \<open>Stat of a name that is open for writing\<close>

text \<open>
  Claim C8: a path-based stat on a name that the store reports as not found, while the
  name is among the names open for writing, succeeds and reports size 0, the current time
  in the access, modify and change fields, and mode 0666 (438). The path is one that
  parses and whose session is available.
\<close>

theorem stat_write_intent:
  assumes "getCephFile (g_defaultParams g) pathname env = Inr file"
      and "getRadosStriper lib file g = Inr (Some striper, g')"
      and "fst (striper_stat lib (store g') striper (name file)) = - ENOENT"
      and "name file \<in># g_filesOpenForWrite g"
  shows "ceph_posix_stat lib now env pathname buf g
           = Inr (0, \<lparr>st_size = 0, st_atime = now, st_mtime = now, st_ctime = now,
                      st_mode = 438\<rparr>, g')"
proof -
  from getRadosStriper_frame[OF assms(2)] assms(4)
  have "name file \<in># g_filesOpenForWrite g'" by simp
  with assms(1,2,3) show ?thesis
    by (auto simp: ceph_posix_stat_def zero_stat_def set_times_and_mode_def ENOENT_def Let_def
             split: prod.splits)
qed

theorem stat_write_intent_witness:
  "getCephFile (g_defaultParams (one_open [] (example_fr 1 0))) ''f'' None
     = Inr (initial_defaultParams\<lparr>name := ''f''\<rparr>)
   \<and> getRadosStriper mem_rados (initial_defaultParams\<lparr>name := ''f''\<rparr>)
        (one_open [] (example_fr 1 0)) = Inr (Some 3, one_open [] (example_fr 1 0))
   \<and> fst (striper_stat mem_rados (store (one_open [] (example_fr 1 0))) 3 ''f'') = - ENOENT
   \<and> ''f'' \<in># g_filesOpenForWrite (one_open [] (example_fr 1 0))
   \<and> ceph_posix_stat mem_rados 777 None ''f'' zero_stat (one_open [] (example_fr 1 0))
     = Inr (0, \<lparr>st_size = 0, st_atime = 777, st_mtime = 777, st_ctime = 777, st_mode = 438\<rparr>,
            one_open [] (example_fr 1 0))"
proof -
  let ?g = "one_open [] (example_fr 1 0)"
  let ?file = "initial_defaultParams\<lparr>name := ''f''\<rparr>"
  have h1: "getCephFile (g_defaultParams ?g) ''f'' None = Inr ?file"
    by (simp add: parse_defs example_defs initial_globals_def)
  have h2: "getRadosStriper mem_rados ?file ?g = Inr (Some 3, ?g)"
    by (simp add: pool_defs example_defs initial_defaultParams_def)
  have n: "name ?file = ''f''" by simp
  have h3: "fst (striper_stat mem_rados (store ?g) 3 (name ?file)) = - ENOENT"
    by (simp add: example_defs initial_globals_def)
  have h4: "name ?file \<in># g_filesOpenForWrite ?g"
    by (simp add: example_defs)
  from stat_write_intent[OF h1 h2 h3 h4, of 777 zero_stat] h1 h2 h3 h4
  show ?thesis by simp
qed

section \<open>Numeric layout fields\<close>

text \<open>
  What the two conversions do on strings that are not empty and hold no zero byte (a
  field cut from a C string holds none). A string they accept is white space, an optional
  sign and at least one digit, with nothing after the digits, which is the C library's
  notion of a decimal number. A string of digits whose value is beyond the range is
  rejected with \<^verbatim>\<open>std::out_of_range\<close>.
\<close>

lemma isdigit_not_other:
  assumes "isdigit c"
  shows "c \<noteq> CHR 0x00" and "\<not> isspace c" and "c \<noteq> CHR ''-''" and "c \<noteq> CHR ''+''"
  using assms by (auto simp: isdigit_def isspace_def)

lemma c_str_no_nul: "CHR 0x00 \<notin> set s \<Longrightarrow> c_str s = s"
  by (auto simp: c_str_def takeWhile_eq_all_conv)

lemma strtou_digits:
  assumes ne: "s \<noteq> []" and dig: "\<forall>c\<in>set s. isdigit c"
  shows "strtou m s = (if m < decimal_value s then (m, [], True) else (decimal_value s, [], False))"
proof -
  obtain c r where s: "s = c # r" using ne by (cases s) auto
  have c: "isdigit c" using dig s by simp
  have nn: "CHR 0x00 \<notin> set s" using dig isdigit_not_other(1) by blast
  have cs: "c_str s = s" by (rule c_str_no_nul[OF nn])
  have d1: "dropWhile isspace s = s" using s isdigit_not_other(2)[OF c] by simp
  have tw: "takeWhile isdigit s = s" using dig by (simp add: takeWhile_eq_all_conv)
  have dw: "dropWhile isdigit s = []" using dig by simp
  have sgn: "(case s of [] \<Rightarrow> False | c # r \<Rightarrow> c = CHR ''-'') = False"
    using s isdigit_not_other(3)[OF c] by simp
  have s2: "(case s of [] \<Rightarrow> [] | c # r \<Rightarrow> if c = CHR ''-'' \<or> c = CHR ''+'' then r else s) = s"
    using s isdigit_not_other(3,4)[OF c] by simp
  show ?thesis
    unfolding strtou_def cs d1 Let_def sgn s2 tw dw
    using ne by simp
qed

lemma stoull_out_of_range:
  assumes "s \<noteq> []" and "\<forall>c\<in>set s. isdigit c" and "ULONG_MAX < decimal_value s"
  shows "stoull s = Inl (out_of_range s)"
  using assms by (simp add: stoull_def strtou_digits)

lemma stoui_out_of_range:
  assumes "s \<noteq> []" and "\<forall>c\<in>set s. isdigit c" and "UINT_MAX < decimal_value s"
  shows "stoui s = Inl (out_of_range s)"
  using assms by (simp add: stoui_def strtou_digits UINT_MAX_def ULONG_MAX_def)

lemma strtou_whole_string:
  assumes ne: "s \<noteq> []" and nn: "CHR 0x00 \<notin> set s"
      and whole: "fst (snd (strtou m s)) = []"
  shows "\<exists>ws sg ds. s = ws @ sg @ ds \<and> (\<forall>c\<in>set ws. isspace c)
           \<and> (sg = [] \<or> sg = ''+'' \<or> sg = ''-'') \<and> ds \<noteq> [] \<and> (\<forall>c\<in>set ds. isdigit c)"
proof -
  define s1 where "s1 = dropWhile isspace s"
  define s2 where "s2 = (case s1 of [] \<Rightarrow> [] | c # r \<Rightarrow> if c = CHR ''-'' \<or> c = CHR ''+'' then r else s1)"
  define sg where "sg = (case s1 of [] \<Rightarrow> [] | c # r \<Rightarrow> if c = CHR ''-'' \<or> c = CHR ''+'' then [c] else [])"
  have cs: "c_str s = s" by (rule c_str_no_nul[OF nn])
  have split1: "s = takeWhile isspace s @ s1" by (simp add: s1_def)
  have split2: "s1 = sg @ s2" by (auto simp: sg_def s2_def split: list.splits)
  have sgs: "sg = [] \<or> sg = ''+'' \<or> sg = ''-''" by (auto simp: sg_def split: list.splits)
  have unf: "strtou m s =
               (if takeWhile isdigit s2 = [] then (0, s, False)
                else if m < decimal_value (takeWhile isdigit s2)
                then (m, dropWhile isdigit s2, True)
                else if (case s1 of [] \<Rightarrow> False | c # r \<Rightarrow> c = CHR ''-'')
                then ((m + 1 - decimal_value (takeWhile isdigit s2)) mod (m + 1),
                      dropWhile isdigit s2, False)
                else (decimal_value (takeWhile isdigit s2), dropWhile isdigit s2, False))"
    unfolding strtou_def cs Let_def s2_def s1_def by simp
  have ds: "takeWhile isdigit s2 \<noteq> []"
  proof
    assume "takeWhile isdigit s2 = []"
    then have "fst (snd (strtou m s)) = s" by (simp add: unf)
    with whole ne show False by simp
  qed
  then have "fst (snd (strtou m s)) = dropWhile isdigit s2" by (simp add: unf)
  with whole have "dropWhile isdigit s2 = []" by simp
  then have all: "\<forall>c\<in>set s2. isdigit c" by (simp add: dropWhile_eq_Nil_conv)
  have "s2 \<noteq> []" using ds by auto
  moreover have "s = takeWhile isspace s @ sg @ s2" using split1 split2 by simp
  moreover have "\<forall>c\<in>set (takeWhile isspace s). isspace c" by (auto dest: set_takeWhileD)
  ultimately show ?thesis using sgs all by blast
qed

lemma stoull_accepts_numerals_only:
  assumes "s \<noteq> []" and "CHR 0x00 \<notin> set s" and "stoull s = Inr v"
  shows "\<exists>ws sg ds. s = ws @ sg @ ds \<and> (\<forall>c\<in>set ws. isspace c)
           \<and> (sg = [] \<or> sg = ''+'' \<or> sg = ''-'') \<and> ds \<noteq> [] \<and> (\<forall>c\<in>set ds. isdigit c)"
proof -
  from assms(3) have "fst (snd (strtou ULONG_MAX s)) = []"
    by (auto simp: stoull_def split: prod.splits if_splits)
  from strtou_whole_string[OF assms(1,2) this] show ?thesis .
qed

lemma stoui_accepts_numerals_only:
  assumes "s \<noteq> []" and "CHR 0x00 \<notin> set s" and "stoui s = Inr v"
  shows "\<exists>ws sg ds. s = ws @ sg @ ds \<and> (\<forall>c\<in>set ws. isspace c)
           \<and> (sg = [] \<or> sg = ''+'' \<or> sg = ''-'') \<and> ds \<noteq> [] \<and> (\<forall>c\<in>set ds. isdigit c)"
proof -
  from assms(3) have "fst (snd (strtou ULONG_MAX s)) = []"
    by (auto simp: stoui_def split: prod.splits if_splits)
  from strtou_whole_string[OF assms(1,2) this] show ?thesis .
qed

text \<open>
  A sign belongs to the C library's numerals: a minus sign is accepted and the value is
  negated in the unsigned type of the conversion, so that \<^verbatim>\<open>-1\<close> is the largest
  64-bit value for \<^verbatim>\<open>stoull\<close>, and out of range for \<^verbatim>\<open>stoui\<close>, which compares
  the 64-bit result with the largest 32-bit value.
\<close>

lemma signed_numerals:
  "stoull ''-1'' = Inr 18446744073709551615 \<and> stoull ''+7'' = Inr 7 \<and> stoull '' 7'' = Inr 7
   \<and> stoui ''-1'' = Inl (out_of_range ''-1'')
   \<and> stoui ''-18446744073709551615'' = Inr 1"
  by (simp add: parse_defs)

text \<open>
  The exception leaves the parser and the entry point that called it: a stripe count that
  is not a number, in the path or in the environment, and a stripe count of \<open>2^32\<close>.
\<close>

lemma invalid_layout_examples:
  "getCephFile initial_defaultParams ''pool,x1,65536:f'' None = Inl (invalid_argument ''x1'')
   \<and> getCephFile initial_defaultParams ''f'' (Some [''cephNbStripes'' \<mapsto> ''12a''])
     = Inl (invalid_argument ''12a'')
   \<and> getCephFile initial_defaultParams ''pool,4294967296:f'' None
     = Inl (out_of_range ''4294967296'')
   \<and> ceph_posix_open mem_rados None ''pool,x1,65536:f'' 0 420 (initial_globals [])
     = Inl (invalid_argument ''x1'')"
  by (simp add: ceph_posix_open_def parse_defs initial_globals_def)

text \<open>
  Claim C9 says that a layout field given as a non-numeric string or as a value beyond
  its range, in a path or in the environment, makes the parse raise the invalid-layout
  condition instead of taking a value silently. The empty string is accepted by both
  conversions and gives 0: \<^verbatim>\<open>strtoul\<close> converts nothing, leaves \<^verbatim>\<open>end\<close> at the
  terminating zero, and the test \<^verbatim>\<open>0 != *end\<close> does not see it. An empty stripe count
  between two commas of a path, or an empty \<^verbatim>\<open>cephNbStripes\<close> in the environment,
  resolves to zero stripes, neither an error nor the default of one stripe that an empty
  field at the end of the parameters gets.
\<close>

theorem empty_numeric_field_is_zero:
  "stoui [] = Inr 0 \<and> stoull [] = Inr 0
   \<and> getCephFile initial_defaultParams ''pool,,65536:f'' None
     = Inr \<lparr>name = ''f'', pool = ''pool'', userId = ''admin'', nbStripes = 0,
            stripeUnit = 65536, objectSize = 4194304\<rparr>
   \<and> getCephFile initial_defaultParams ''f'' (Some [''cephNbStripes'' \<mapsto> []])
     = Inr \<lparr>name = ''f'', pool = ''default'', userId = ''admin'', nbStripes = 0,
            stripeUnit = 4194304, objectSize = 4194304\<rparr>
   \<and> getCephFile initial_defaultParams ''pool,:f'' None
     = Inr \<lparr>name = ''f'', pool = ''pool'', userId = ''admin'', nbStripes = 1,
            stripeUnit = 4194304, objectSize = 4194304\<rparr>"
  by (simp add: parse_defs)

section \<open>Fstat of a handle that is open for writing\<close>

text \<open>
  \<^verbatim>\<open>ceph_posix_fstat\<close> does not read \<^verbatim>\<open>g_filesOpenForWrite\<close>. For a handle open
  for writing on a name that the store does not hold it synthesizes nothing, although the
  name is among the names open for writing: the buffer is as the store left it and the
  value returned is not 0. The value is the store's code \<^verbatim>\<open>-ENOENT\<close> with the sign
  reversed.
\<close>

lemma fstat_ignores_write_intent:
  assumes "g_fds g fd = Some fr"
      and "flags fr AND (O_WRONLY OR O_RDWR) \<noteq> 0"
      and "name fr \<in># g_filesOpenForWrite g"
      and "getRadosStriper lib fr g = Inr (Some striper, g')"
      and "striper_stat lib (store g') striper (name fr) = (- ENOENT, sz, tm)"
  shows "ceph_posix_fstat lib fd buf g
           = Inr (ENOENT, zero_stat\<lparr>st_size := sz, st_atime := tm\<rparr>, g')"
  using assms by (simp add: ceph_posix_fstat_def ENOENT_def)

text \<open>
  Claim C10 says that the write-intent special case applies to the path-based stat only:
  for a handle open for writing on a name absent from the store, fstat returns the
  store's not-found error instead of the synthesized zero-size result. Descriptor 0 is
  open write-only on \<^verbatim>\<open>f\<close>, which the empty store does not hold and which is among
  the names open for writing. The path-based stat of \<^verbatim>\<open>f\<close> gives the synthesized
  result and fstat does not, as the claim says. But the store's not-found error is
  \<^verbatim>\<open>-ENOENT\<close>, which is -2, and fstat returns 2: a positive value, which the return
  convention reads as success. It is the reversed sign of claim C7.
\<close>

theorem fstat_not_found_is_positive:
  "striper_stat mem_rados (store (one_open [] (example_fr 1 0))) 3 ''f'' = (- 2, 0, 0)
   \<and> ''f'' \<in># g_filesOpenForWrite (one_open [] (example_fr 1 0))
   \<and> ceph_posix_fstat mem_rados 0 zero_stat (one_open [] (example_fr 1 0))
     = Inr (2, zero_stat, one_open [] (example_fr 1 0))
   \<and> ceph_posix_stat mem_rados 777 None ''f'' zero_stat (one_open [] (example_fr 1 0))
     = Inr (0, \<lparr>st_size = 0, st_atime = 777, st_mtime = 777, st_ctime = 777, st_mode = 438\<rparr>,
            one_open [] (example_fr 1 0))"
  by (simp add: ceph_posix_fstat_def ceph_posix_stat_def set_times_and_mode_def parse_defs
                pool_defs example_defs const_defs zero_stat_def)

end
